theory Spec2Isabelle
  imports Main "HOL-Library.Word" "HOL-Library.Sublist"
begin

section \<open>Column model (database.go)\<close>

text \<open>
  \<^verbatim>\<open>type Column struct { Name string; Type string; Size int; Length int }\<close> and
  \<^verbatim>\<open>type Columns []*Column\<close>. A Go string is a byte sequence, a Go \<^verbatim>\<open>int\<close> a 64-bit
  machine integer. An entry of \<^verbatim>\<open>Columns\<close> is a pointer: \<open>None\<close> is the nil pointer,
  \<open>Some c\<close> a pointer to the record \<open>c\<close>.
\<close>

record Column =
  Name :: string
  Type :: string
  Size :: "64 word"
  Length :: "64 word"

type_synonym Columns = "Column option list"

text \<open>
  Reading a field through a nil pointer (\<^verbatim>\<open>cols[i].Name\<close> with \<^verbatim>\<open>cols[i] == nil\<close>) is a
  run-time panic; it is the only way the methods of \<^verbatim>\<open>Columns\<close> can fail.
\<close>

datatype panic = NilPointerDereference

text \<open>
  \<^verbatim>\<open>for i := range cols { ... }\<close> runs its body for \<open>i = 0, 1, ..., len(cols) - 1\<close> in this
  order; a panic in the body ends the loop and the call.
\<close>

fun for_range :: "nat list \<Rightarrow> (nat \<Rightarrow> 's \<Rightarrow> panic + 's) \<Rightarrow> 's \<Rightarrow> panic + 's" where
  "for_range [] body s = Inr s"
| "for_range (i # is) body s =
     (case body i s of Inl e \<Rightarrow> Inl e | Inr s' \<Rightarrow> for_range is body s')"

subsection \<open>Names, NamesWithTimeLocation, Types\<close>

text \<open>
  \<^verbatim>\<open>names := make([]string, len(cols))\<close> is a slice of \<open>len(cols)\<close> empty strings;
  \<^verbatim>\<open>names[i] = cols[i].Name\<close> overwrites position \<open>i\<close>.
\<close>

definition Names_body :: "Columns \<Rightarrow> nat \<Rightarrow> string list \<Rightarrow> panic + string list" where
  "Names_body cols i names =
     (case cols ! i of
        None \<Rightarrow> Inl NilPointerDereference
      | Some c \<Rightarrow> Inr (names[i := Name c]))"

definition Names :: "Columns \<Rightarrow> panic + string list" where
  "Names cols =
     for_range [0..<length cols] (Names_body cols) (replicate (length cols) [])"

text \<open>
  \<^verbatim>\<open>tz *time.Location\<close>: a location carries its name, and \<^verbatim>\<open>tz.String()\<close> of Go's
  standard library returns that name, \<^verbatim>\<open>"UTC"\<close> for the nil location.
\<close>

record Location =
  name :: string

definition Location_String :: "Location option \<Rightarrow> string" where
  "Location_String tz = (case tz of None \<Rightarrow> ''UTC'' | Some l \<Rightarrow> name l)"

text \<open>\<^verbatim>\<open>fmt.Sprintf("%s(%s)", a, b)\<close> copies \<open>a\<close>, an opening parenthesis, \<open>b\<close> and a closing one.\<close>

definition Sprintf_name_zone :: "string \<Rightarrow> string \<Rightarrow> string" where
  "Sprintf_name_zone a b = a @ ''('' @ b @ '')''"

definition NamesWithTimeLocation_body ::
  "Columns \<Rightarrow> Location option \<Rightarrow> nat \<Rightarrow> string list \<Rightarrow> panic + string list" where
  "NamesWithTimeLocation_body cols tz i names =
     (case cols ! i of
        None \<Rightarrow> Inl NilPointerDereference
      | Some c \<Rightarrow>
          if Type c = ''datetime''
          then Inr (names[i := Sprintf_name_zone (Name c) (Location_String tz)])
          else Inr (names[i := Name c]))"

definition NamesWithTimeLocation :: "Columns \<Rightarrow> Location option \<Rightarrow> panic + string list" where
  "NamesWithTimeLocation cols tz =
     for_range [0..<length cols] (NamesWithTimeLocation_body cols tz)
       (replicate (length cols) [])"

definition Types_body :: "Columns \<Rightarrow> nat \<Rightarrow> string list \<Rightarrow> panic + string list" where
  "Types_body cols i types =
     (case cols ! i of
        None \<Rightarrow> Inl NilPointerDereference
      | Some c \<Rightarrow> Inr (types[i := Type c]))"

definition Types :: "Columns \<Rightarrow> panic + string list" where
  "Types cols =
     for_range [0..<length cols] (Types_body cols) (replicate (length cols) [])"

subsection \<open>Type tags\<close>

definition ColumnBufferTypeInt16 :: string where "ColumnBufferTypeInt16 = ''int16''"
definition ColumnBufferTypeInt32 :: string where "ColumnBufferTypeInt32 = ''int32''"
definition ColumnBufferTypeInt64 :: string where "ColumnBufferTypeInt64 = ''int64''"
definition ColumnBufferTypeDatetime :: string where "ColumnBufferTypeDatetime = ''datetime''"
definition ColumnBufferTypeFloat :: string where "ColumnBufferTypeFloat = ''float''"
definition ColumnBufferTypeDouble :: string where "ColumnBufferTypeDouble = ''double''"
definition ColumnBufferTypeIPv4 :: string where "ColumnBufferTypeIPv4 = ''ipv4''"
definition ColumnBufferTypeIPv6 :: string where "ColumnBufferTypeIPv6 = ''ipv6''"
definition ColumnBufferTypeString :: string where "ColumnBufferTypeString = ''string''"
definition ColumnBufferTypeBinary :: string where "ColumnBufferTypeBinary = ''binary''"
definition ColumnBufferTypeBoolean :: string where "ColumnBufferTypeBoolean = ''bool''"
definition ColumnBufferTypeByte :: string where "ColumnBufferTypeByte = ''int8''"

text \<open>The twelve tags, in the order of the constant block.\<close>

definition supported_tags :: "string list" where
  "supported_tags =
     [ColumnBufferTypeInt16, ColumnBufferTypeInt32, ColumnBufferTypeInt64,
      ColumnBufferTypeDatetime, ColumnBufferTypeFloat, ColumnBufferTypeDouble,
      ColumnBufferTypeIPv4, ColumnBufferTypeIPv6, ColumnBufferTypeString,
      ColumnBufferTypeBinary, ColumnBufferTypeBoolean, ColumnBufferTypeByte]"

subsection \<open>MakeBuffer\<close>

text \<open>
  The element type of the buffer is \<^verbatim>\<open>any\<close>. \<^verbatim>\<open>make([]any, n)\<close> fills it with nil
  interface values; \<^verbatim>\<open>new(T)\<close> is a pointer to a fresh cell of type \<open>T\<close> holding the zero
  value of \<open>T\<close>. The model keeps the type of the cell: \<^verbatim>\<open>byte\<close> is \<^verbatim>\<open>uint8\<close>, and both
  \<^verbatim>\<open>ipv4\<close> and \<^verbatim>\<open>ipv6\<close> allocate a \<^verbatim>\<open>net.IP\<close>.
\<close>

datatype go_type =
    T_int16 | T_int32 | T_int64 | T_uint8
  | T_float32 | T_float64
  | T_time_Time | T_net_IP | T_string | T_bytes | T_bool

datatype slot = NilSlot | New go_type

text \<open>
  The \<^verbatim>\<open>switch cols[i].Type\<close> compares the tag with each case in the order written, by
  string equality; when no case matches nothing is assigned and \<open>rec[i]\<close> keeps the nil
  it was made with.
\<close>

definition MakeBuffer_body :: "Columns \<Rightarrow> nat \<Rightarrow> slot list \<Rightarrow> panic + slot list" where
  "MakeBuffer_body cols i rec =
     (case cols ! i of
        None \<Rightarrow> Inl NilPointerDereference
      | Some c \<Rightarrow>
          if Type c = ''int16'' then Inr (rec[i := New T_int16])
          else if Type c = ''int32'' then Inr (rec[i := New T_int32])
          else if Type c = ''int64'' then Inr (rec[i := New T_int64])
          else if Type c = ''datetime'' then Inr (rec[i := New T_time_Time])
          else if Type c = ''float'' then Inr (rec[i := New T_float32])
          else if Type c = ''double'' then Inr (rec[i := New T_float64])
          else if Type c = ''ipv4'' then Inr (rec[i := New T_net_IP])
          else if Type c = ''ipv6'' then Inr (rec[i := New T_net_IP])
          else if Type c = ''string'' then Inr (rec[i := New T_string])
          else if Type c = ''binary'' then Inr (rec[i := New T_bytes])
          else if Type c = ''bool'' then Inr (rec[i := New T_bool])
          else if Type c = ''int8'' then Inr (rec[i := New T_uint8])
          else Inr rec)"

definition MakeBuffer :: "Columns \<Rightarrow> panic + slot list" where
  "MakeBuffer cols =
     for_range [0..<length cols] (MakeBuffer_body cols) (replicate (length cols) NilSlot)"

subsection \<open>The specified tag-to-storage table\<close>

text \<open>
  The table as the specification words it: int16 to a 16-bit signed cell, int32 to a 32-bit
  signed cell, int64 to a 64-bit signed cell, int8 to an 8-bit unsigned cell, float to a
  32-bit float, double to a 64-bit float, datetime to a timestamp, ipv4 and ipv6 to an IP
  address, string to text, binary to a byte sequence, bool to a boolean. It is compared
  below with what the \<^verbatim>\<open>switch\<close> of \<open>MakeBuffer\<close> does.
\<close>

definition spec_storage_kind :: "string \<Rightarrow> go_type option" where
  "spec_storage_kind =
     map_of
       [(''int16'', T_int16), (''int32'', T_int32), (''int64'', T_int64), (''int8'', T_uint8),
        (''float'', T_float32), (''double'', T_float64), (''datetime'', T_time_Time),
        (''ipv4'', T_net_IP), (''ipv6'', T_net_IP), (''string'', T_string),
        (''binary'', T_bytes), (''bool'', T_bool)]"

definition slot_of_tag :: "string \<Rightarrow> slot" where
  "slot_of_tag t = (case spec_storage_kind t of None \<Rightarrow> NilSlot | Some k \<Rightarrow> New k)"

subsection \<open>Near misses of a tag\<close>

text \<open>
  A string differs from a tag only in letter case or in surrounding characters when it is
  not the tag itself and holds, somewhere inside, a run of characters that is the tag once
  upper-case ASCII letters are lowered.
\<close>

definition to_lower :: "char \<Rightarrow> char" where
  "to_lower ch =
     (let n = of_char ch :: nat in if 65 \<le> n \<and> n \<le> 90 then char_of (n + 32) else ch)"

definition tag_variant :: "string \<Rightarrow> string \<Rightarrow> bool" where
  "tag_variant t tag \<longleftrightarrow> t \<noteq> tag \<and> sublist tag (map to_lower t)"

subsection \<open>The shape of the loop bodies\<close>

text \<open>
  The four loop bodies share one shape: dereference \<open>cols[i]\<close>, then store at position
  \<open>i\<close> a value computed from the column (and, for \<open>MakeBuffer\<close>, from what is there).
\<close>

definition assign_body ::
  "Columns \<Rightarrow> (Column \<Rightarrow> 'a \<Rightarrow> 'a) \<Rightarrow> nat \<Rightarrow> 'a list \<Rightarrow> panic + 'a list" where
  "assign_body cols h i xs =
     (case cols ! i of
        None \<Rightarrow> Inl NilPointerDereference
      | Some c \<Rightarrow> Inr (xs[i := h c (xs ! i)]))"

subsection \<open>Example inputs\<close>

definition example_columns :: Columns where
  "example_columns =
     [Some \<lparr>Name = ''name'', Type = ''string'', Size = 0, Length = 0\<rparr>,
      Some \<lparr>Name = ''age'', Type = ''int32'', Size = 4, Length = 0\<rparr>,
      Some \<lparr>Name = ''ts'', Type = ''datetime'', Size = 8, Length = 0\<rparr>,
      Some \<lparr>Name = ''geo'', Type = ''point'', Size = 16, Length = 0\<rparr>]"

definition example_zone :: "Location option" where
  "example_zone = Some \<lparr>name = ''Asia/Seoul''\<rparr>"

definition variant_columns :: Columns where
  "variant_columns =
     [Some \<lparr>Name = ''a'', Type = ''INT32'', Size = 4, Length = 0\<rparr>,
      Some \<lparr>Name = ''b'', Type = ''Datetime'', Size = 8, Length = 0\<rparr>,
      Some \<lparr>Name = ''c'', Type = ''int32 '', Size = 4, Length = 0\<rparr>]"

definition other_columns :: Columns where
  "other_columns =
     [Some \<lparr>Name = ''flag'', Type = ''bool'', Size = 1, Length = 7\<rparr>,
      Some \<lparr>Name = ''shape'', Type = ''point'', Size = 32, Length = 2\<rparr>,
      Some \<lparr>Name = ''count'', Type = ''int32'', Size = 64, Length = 9\<rparr>]"

section \<open>Error sentinels\<close>

text \<open>
  \<^verbatim>\<open>var ErrUserCancel error = errors.New("user cancel")\<close> and
  \<^verbatim>\<open>var ErrNotImplemented = errors.New("not implemented")\<close>. Go's \<^verbatim>\<open>errors.New\<close> returns a
  pointer to a freshly allocated cell holding the text, so the model has a store of such
  cells: the cell at address \<open>a\<close> is the \<open>a\<close>-th element, and allocation appends.
\<close>

type_synonym addr = nat

type_synonym error_store = "string list"

text \<open>An \<^verbatim>\<open>error\<close> value is nil or a pointer to one of the cells.\<close>

datatype error = nil_error | errorString_at addr

definition errors_New :: "string \<Rightarrow> error_store \<Rightarrow> error \<times> error_store" where
  "errors_New txt st = (errorString_at (length st), st @ [txt])"

text \<open>
  \<^verbatim>\<open>a == b\<close> on two \<^verbatim>\<open>error\<close> values holding such pointers compares the pointers; it does
  not read the store.
\<close>

fun error_eq :: "error \<Rightarrow> error \<Rightarrow> bool" where
  "error_eq nil_error nil_error = True"
| "error_eq (errorString_at a) (errorString_at b) = (a = b)"
| "error_eq _ _ = False"

text \<open>\<^verbatim>\<open>e.Error()\<close> reads the text of the cell; on the nil value the call panics.\<close>

fun Error :: "error_store \<Rightarrow> error \<Rightarrow> panic + string" where
  "Error st nil_error = Inl NilPointerDereference"
| "Error st (errorString_at a) = Inr (st ! a)"

record sentinels =
  ErrUserCancel :: error
  ErrNotImplemented :: error

text \<open>
  Package initialisation evaluates the two initialisers in the order they are declared,
  starting from whatever store the packages initialised before have left.
\<close>

definition init_sentinels :: "error_store \<Rightarrow> sentinels \<times> error_store" where
  "init_sentinels st =
     (let (e1, st1) = errors_New ''user cancel'' st;
          (e2, st2) = errors_New ''not implemented'' st1
      in (\<lparr>ErrUserCancel = e1, ErrNotImplemented = e2\<rparr>, st2))"

section \<open>Row cursor\<close>

text \<open>
  \<^verbatim>\<open>database.go\<close> declares \<^verbatim>\<open>Rows\<close> as an interface (\<^verbatim>\<open>Next\<close>, \<^verbatim>\<open>Scan\<close>, \<^verbatim>\<open>Close\<close>, ...)
  and holds no implementation of it. The cursor below is the state machine of the
  specification, with the doc comments of the interface: \<^verbatim>\<open>Next\<close> returns true if at least
  one more fetchable record remains, \<^verbatim>\<open>Scan\<close> retrieves the values of the columns of a row,
  \<^verbatim>\<open>Close\<close> releases all resources assigned to the cursor.
\<close>

text \<open>
  Modelled from the spec: the values of a row (the \<^verbatim>\<open>any\<close> values a scan yields or an
  append takes), of which integers and texts are enough here; the implementations that
  produce them are missing.
\<close>

datatype val = IntVal int | StrVal string

text \<open>
  Modelled from the spec: the three cursor states of the state machine, \<open>Unstarted\<close>,
  \<open>Positioned\<close> (on a row) and \<open>Exhausted\<close>; no implementation of \<^verbatim>\<open>Rows\<close> is in the
  repository.
\<close>

datatype cursor_state = Unstarted | Positioned "val list" | Exhausted

text \<open>
  Modelled from the spec: a cursor is its state and the records the server still holds
  for it; the implementation of \<^verbatim>\<open>Rows\<close> is missing.
\<close>

record Rows =
  state :: cursor_state
  remaining :: "val list list"

text \<open>
  Modelled from the spec: the cursor a query returns is \<open>Unstarted\<close> and has all the
  records of the result ahead of it; the implementation of \<^verbatim>\<open>Conn.Query\<close> is missing.
\<close>

definition Rows_Open :: "val list list \<Rightarrow> Rows" where
  "Rows_Open rs = \<lparr>state = Unstarted, remaining = rs\<rparr>"

text \<open>
  Modelled from the spec: the usage error of a \<^verbatim>\<open>Scan\<close> made while the cursor is on no row;
  the implementation of \<^verbatim>\<open>Rows.Scan\<close> is missing.
\<close>

datatype usage_error = ScanWithoutRow

text \<open>
  Modelled from the spec: \<^verbatim>\<open>Rows.Next\<close>, missing from the repository. From \<open>Unstarted\<close> or
  \<open>Positioned\<close> it returns true and moves onto the next record when one remains, and
  returns false and moves to \<open>Exhausted\<close> otherwise; the machine has no arrow out of
  \<open>Exhausted\<close>, so there it returns false and stays.
\<close>

definition Rows_Next :: "Rows \<Rightarrow> bool \<times> Rows" where
  "Rows_Next r =
     (case state r of
        Exhausted \<Rightarrow> (False, r)
      | _ \<Rightarrow>
          (case remaining r of
             [] \<Rightarrow> (False, r\<lparr>state := Exhausted\<rparr>)
           | x # xs \<Rightarrow> (True, \<lparr>state = Positioned x, remaining = xs\<rparr>)))"

text \<open>
  Modelled from the spec: \<^verbatim>\<open>Rows.Scan\<close>, missing from the repository. It is only meaningful
  in the \<open>Positioned\<close> state, where it yields the values of the row; called otherwise it
  fails with a usage error. It does not move the cursor.
\<close>

definition Rows_Scan :: "Rows \<Rightarrow> usage_error + val list" where
  "Rows_Scan r =
     (case state r of
        Positioned x \<Rightarrow> Inr x
      | _ \<Rightarrow> Inl ScanWithoutRow)"

text \<open>
  Modelled from the spec: \<^verbatim>\<open>Rows.Close\<close>, missing from the repository. It is valid from any
  state and may be repeated; it releases the records held for the cursor and returns a nil
  error. The state machine gives it no arrow, so the state is left as it is.
\<close>

definition Rows_Close :: "Rows \<Rightarrow> usage_error option \<times> Rows" where
  "Rows_Close r = (None, r\<lparr>remaining := []\<rparr>)"

text \<open>
  Modelled from the spec: the three calls of the state machine; the implementation of
  \<^verbatim>\<open>Rows\<close> is missing.
\<close>

datatype rows_call = Call_Next | Call_Scan | Call_Close

text \<open>
  Modelled from the spec: the cursor a call leaves behind, by the definitions above of the
  missing \<^verbatim>\<open>Next\<close>, \<^verbatim>\<open>Scan\<close> and \<^verbatim>\<open>Close\<close>.
\<close>

fun Rows_after :: "rows_call \<Rightarrow> Rows \<Rightarrow> Rows" where
  "Rows_after Call_Next r = snd (Rows_Next r)"
| "Rows_after Call_Scan r = r"
| "Rows_after Call_Close r = snd (Rows_Close r)"

text \<open>
  Modelled from the spec: a caller's use of a cursor (the implementation of \<^verbatim>\<open>Rows\<close> is
  missing) is a sequence of calls, each made on the cursor the call before has left.
\<close>

fun Rows_run :: "rows_call list \<Rightarrow> Rows \<Rightarrow> Rows" where
  "Rows_run [] r = r"
| "Rows_run (c # cs) r = Rows_run cs (Rows_after c r)"

text \<open>The result set of one record used in the examples.\<close>

definition example_rows :: "val list list" where
  "example_rows = [[StrVal ''alice'', IntVal 30]]"

section \<open>Appender\<close>

text \<open>
  \<^verbatim>\<open>database.go\<close> declares \<^verbatim>\<open>Appender\<close> as an interface (\<^verbatim>\<open>Append\<close>, \<^verbatim>\<open>AppendWithTimestamp\<close>,
  \<^verbatim>\<open>Close\<close>, ...) and holds no implementation of it; the appender below follows the
  lifecycle of the specification.
\<close>

text \<open>
  Modelled from the spec: the explicit event time of \<^verbatim>\<open>AppendWithTimestamp\<close>, a
  \<^verbatim>\<open>time.Time\<close>, kept as a count of nanoseconds; the implementation that reads it is missing.
\<close>

type_synonym Time = int

text \<open>
  Modelled from the spec: an appended row is its values and, when the call pinned one, its
  event time; the implementation of \<^verbatim>\<open>Appender\<close> is missing.
\<close>

type_synonym appended_row = "Time option \<times> val list"

text \<open>
  Modelled from the spec: the two failures of the missing \<^verbatim>\<open>Appender\<close>: the usage error of
  a call with the wrong number of values, and the error \<^verbatim>\<open>Close\<close> returns when a row was
  rejected.
\<close>

datatype append_error = ArityMismatch | RowsRejected

text \<open>
  Modelled from the spec: an appender is bound to one table, of which it keeps the number
  of columns, and accumulates the rows appended so far; the implementation of
  \<^verbatim>\<open>Appender\<close> is missing.
\<close>

record Appender =
  column_count :: nat
  buffered :: "appended_row list"

text \<open>
  Modelled from the spec: opening an appender on a table of \<open>k\<close> columns
  (\<^verbatim>\<open>Conn.Appender\<close>, whose implementation is missing); no row is appended yet.
\<close>

definition Appender_Open :: "nat \<Rightarrow> Appender" where
  "Appender_Open k = \<lparr>column_count = k, buffered = []\<rparr>"

text \<open>
  Modelled from the spec: \<^verbatim>\<open>Appender.Append\<close>, missing from the repository. It validates the
  number of values against the column count of the bound table; a mismatch fails the call
  and leaves the appended rows as they were.
\<close>

definition Appender_Append :: "val list \<Rightarrow> Appender \<Rightarrow> append_error option \<times> Appender" where
  "Appender_Append values a =
     (if length values = column_count a
      then (None, a\<lparr>buffered := buffered a @ [(None, values)]\<rparr>)
      else (Some ArityMismatch, a))"

text \<open>
  Modelled from the spec: \<^verbatim>\<open>Appender.AppendWithTimestamp\<close>, missing from the repository. As
  \<^verbatim>\<open>Append\<close>, and the row additionally carries the given event time.
\<close>

definition Appender_AppendWithTimestamp ::
  "Time \<Rightarrow> val list \<Rightarrow> Appender \<Rightarrow> append_error option \<times> Appender" where
  "Appender_AppendWithTimestamp ts values a =
     (if length values = column_count a
      then (None, a\<lparr>buffered := buffered a @ [(Some ts, values)]\<rparr>)
      else (Some ArityMismatch, a))"

text \<open>
  Modelled from the spec: \<^verbatim>\<open>Appender.Close\<close>, missing from the repository. It flushes the
  buffered rows and returns the number of rows that succeeded, the number that failed and
  an error, which is non-nil when a row was rejected. Which rows the storage engine
  rejects is outside the model: \<open>stores\<close> says it. The counts are \<^verbatim>\<open>int64\<close> in the
  interface; they count rows held in memory and are kept as integers.
\<close>

definition Appender_Close ::
  "(appended_row \<Rightarrow> bool) \<Rightarrow> Appender \<Rightarrow> int \<times> int \<times> append_error option" where
  "Appender_Close stores a =
     (let ok = filter stores (buffered a);
          bad = filter (\<lambda>row. \<not> stores row) (buffered a)
      in (int (length ok), int (length bad), if bad = [] then None else Some RowsRejected))"

text \<open>
  Modelled from the spec: the two calls made between opening and closing an appender; the
  implementation of \<^verbatim>\<open>Appender\<close> is missing.
\<close>

datatype append_call = Call_Append "val list" | Call_AppendWithTimestamp Time "val list"

text \<open>
  Modelled from the spec: the appender a call leaves behind, by the definitions above of
  the missing \<^verbatim>\<open>Append\<close> and \<^verbatim>\<open>AppendWithTimestamp\<close>.
\<close>

fun Appender_after :: "append_call \<Rightarrow> Appender \<Rightarrow> Appender" where
  "Appender_after (Call_Append values) a = snd (Appender_Append values a)"
| "Appender_after (Call_AppendWithTimestamp ts values) a =
     snd (Appender_AppendWithTimestamp ts values a)"

text \<open>
  Modelled from the spec: the lifecycle of the missing \<^verbatim>\<open>Appender\<close>, a sequence of calls,
  each made on the appender the call before has left.
\<close>

fun Appender_run :: "append_call list \<Rightarrow> Appender \<Rightarrow> Appender" where
  "Appender_run [] a = a"
| "Appender_run (c # cs) a = Appender_run cs (Appender_after c a)"

text \<open>
  Modelled from the spec: the values a call of the missing \<^verbatim>\<open>Append\<close> or
  \<^verbatim>\<open>AppendWithTimestamp\<close> passes.
\<close>

fun call_values :: "append_call \<Rightarrow> val list" where
  "call_values (Call_Append values) = values"
| "call_values (Call_AppendWithTimestamp ts values) = values"

text \<open>
  Modelled from the spec: the arity check of the missing \<^verbatim>\<open>Append\<close> and
  \<^verbatim>\<open>AppendWithTimestamp\<close>, as a predicate on calls: as many values as the table has columns.
\<close>

definition arity_ok :: "nat \<Rightarrow> append_call \<Rightarrow> bool" where
  "arity_ok k c \<longleftrightarrow> length (call_values c) = k"

text \<open>The two calls of the example: one of the right arity for two columns, one not.\<close>

definition example_calls :: "append_call list" where
  "example_calls = [Call_Append [IntVal 1, StrVal ''a''], Call_Append [IntVal 2]]"

section \<open>Properties of the column model\<close>

subsection \<open>The range loop\<close>

lemma for_range_assign_panic:
  "\<exists>i\<in>set is. cols ! i = None \<Longrightarrow>
   for_range is (assign_body cols h) xs = Inl NilPointerDereference"
proof (induction "is" arbitrary: xs)
  case Nil
  then show ?case by simp
next
  case (Cons i "is")
  show ?case
  proof (cases "cols ! i")
    case None
    then show ?thesis by (simp add: assign_body_def)
  next
    case (Some c)
    with Cons.prems have "\<exists>i\<in>set is. cols ! i = None" by auto
    from Cons.IH[OF this] Some show ?thesis by (simp add: assign_body_def)
  qed
qed

lemma for_range_assign_ok:
  "\<forall>i\<in>set is. cols ! i \<noteq> None \<Longrightarrow> distinct is \<Longrightarrow>
   \<exists>ys. for_range is (assign_body cols h) xs = Inr ys \<and> length ys = length xs \<and>
     (\<forall>j<length xs. ys ! j = (if j \<in> set is then h (the (cols ! j)) (xs ! j) else xs ! j))"
proof (induction "is" arbitrary: xs)
  case Nil
  then show ?case by simp
next
  case (Cons i "is")
  from Cons.prems obtain c where c: "cols ! i = Some c" by auto
  let ?xs' = "xs[i := h c (xs ! i)]"
  from Cons.prems have "\<forall>i\<in>set is. cols ! i \<noteq> None" "distinct is" by auto
  from Cons.IH[OF this, of ?xs'] obtain ys where
    ys: "for_range is (assign_body cols h) ?xs' = Inr ys" "length ys = length ?xs'"
        "\<forall>j<length ?xs'. ys ! j = (if j \<in> set is then h (the (cols ! j)) (?xs' ! j) else ?xs' ! j)"
    by blast
  have run: "for_range (i # is) (assign_body cols h) xs = Inr ys"
    using c ys(1) by (simp add: assign_body_def)
  have ni: "i \<notin> set is" using Cons.prems by simp
  have "\<forall>j<length xs. ys ! j = (if j \<in> set (i # is) then h (the (cols ! j)) (xs ! j) else xs ! j)"
  proof (intro allI impI)
    fix j assume j: "j < length xs"
    with ys(3) have yj: "ys ! j = (if j \<in> set is then h (the (cols ! j)) (?xs' ! j) else ?xs' ! j)"
      by simp
    show "ys ! j = (if j \<in> set (i # is) then h (the (cols ! j)) (xs ! j) else xs ! j)"
    proof (cases "j = i")
      case True
      with yj ni j c show ?thesis by simp
    next
      case False
      with yj show ?thesis by simp
    qed
  qed
  with run ys(2) show ?case by simp
qed

lemma for_range_assign:
  "for_range [0..<length cols] (assign_body cols h) (replicate (length cols) z) =
     (if None \<in> set cols then Inl NilPointerDereference
      else Inr (map (\<lambda>p. h (the p) z) cols))"
proof (cases "None \<in> set cols")
  case True
  then have "\<exists>i\<in>set [0..<length cols]. cols ! i = None"
    by (auto simp: in_set_conv_nth)
  from for_range_assign_panic[OF this] True show ?thesis by simp
next
  case False
  then have "\<forall>i\<in>set [0..<length cols]. cols ! i \<noteq> None"
    by (auto simp: in_set_conv_nth)
  from for_range_assign_ok[OF this, of h "replicate (length cols) z"]
  obtain ys where ys: "for_range [0..<length cols] (assign_body cols h) (replicate (length cols) z) = Inr ys"
    "length ys = length cols"
    "\<forall>j<length cols. ys ! j = h (the (cols ! j)) z"
    by auto
  have "ys = map (\<lambda>p. h (the p) z) cols"
    using ys(2,3) by (intro nth_equalityI) simp_all
  with ys(1) False show ?thesis by simp
qed

subsection \<open>The four methods in closed form\<close>

lemmas ColumnBufferType_defs =
  ColumnBufferTypeInt16_def ColumnBufferTypeInt32_def ColumnBufferTypeInt64_def
  ColumnBufferTypeDatetime_def ColumnBufferTypeFloat_def ColumnBufferTypeDouble_def
  ColumnBufferTypeIPv4_def ColumnBufferTypeIPv6_def ColumnBufferTypeString_def
  ColumnBufferTypeBinary_def ColumnBufferTypeBoolean_def ColumnBufferTypeByte_def

lemma Names_body_assign: "Names_body cols = assign_body cols (\<lambda>c old. Name c)"
  by (intro ext) (simp add: Names_body_def assign_body_def)

lemma Types_body_assign: "Types_body cols = assign_body cols (\<lambda>c old. Type c)"
  by (intro ext) (simp add: Types_body_def assign_body_def)

lemma NamesWithTimeLocation_body_assign:
  "NamesWithTimeLocation_body cols tz =
     assign_body cols (\<lambda>c old. if Type c = ''datetime''
                               then Name c @ ''('' @ Location_String tz @ '')'' else Name c)"
  by (intro ext)
     (simp add: NamesWithTimeLocation_body_def assign_body_def Sprintf_name_zone_def
           split: option.split)

lemma MakeBuffer_body_assign:
  "MakeBuffer_body cols =
     assign_body cols (\<lambda>c old. case spec_storage_kind (Type c) of None \<Rightarrow> old | Some k \<Rightarrow> New k)"
  by (intro ext)
     (simp add: MakeBuffer_body_def assign_body_def spec_storage_kind_def split: option.split)

lemma Names_eq:
  "Names cols =
     (if None \<in> set cols then Inl NilPointerDereference
      else Inr (map (\<lambda>p. Name (the p)) cols))"
  unfolding Names_def Names_body_assign by (rule for_range_assign)

lemma Types_eq:
  "Types cols =
     (if None \<in> set cols then Inl NilPointerDereference
      else Inr (map (\<lambda>p. Type (the p)) cols))"
  unfolding Types_def Types_body_assign by (rule for_range_assign)

lemma NamesWithTimeLocation_eq:
  "NamesWithTimeLocation cols tz =
     (if None \<in> set cols then Inl NilPointerDereference
      else Inr (map (\<lambda>p. if Type (the p) = ''datetime''
                          then Name (the p) @ ''('' @ Location_String tz @ '')''
                          else Name (the p)) cols))"
  unfolding NamesWithTimeLocation_def NamesWithTimeLocation_body_assign
  by (rule for_range_assign)

lemma MakeBuffer_eq:
  "MakeBuffer cols =
     (if None \<in> set cols then Inl NilPointerDereference
      else Inr (map (\<lambda>p. slot_of_tag (Type (the p))) cols))"
  unfolding MakeBuffer_def MakeBuffer_body_assign slot_of_tag_def
  by (rule for_range_assign)

lemma MakeBuffer_nth:
  assumes "MakeBuffer cols = Inr buf" "i < length cols" "cols ! i = Some c"
  shows "buf ! i = slot_of_tag (Type c)"
  using assms by (auto simp: MakeBuffer_eq split: if_splits)

lemma spec_storage_kind_supported:
  "t \<in> set supported_tags \<longleftrightarrow> spec_storage_kind t \<noteq> None"
  by (simp add: supported_tags_def ColumnBufferType_defs spec_storage_kind_def)

subsection \<open>Buffer allocation by tag\<close>

lemma example_MakeBuffer:
  "MakeBuffer example_columns = Inr [New T_string, New T_int32, New T_time_Time, NilSlot]"
  by (simp add: MakeBuffer_def example_columns_def MakeBuffer_body_def upt_rec)

text \<open>
  C1. Whenever \<open>MakeBuffer\<close> returns, the slot at the index of a column carrying one of
  the twelve tags is a pointer to a cell of the kind the table gives: int16, int32 and int64
  to signed cells of 16, 32 and 64 bits, int8 to an unsigned byte, float and double to
  floats of 32 and 64 bits, datetime to a timestamp, ipv4 and ipv6 to an IP address, string
  to text, binary to a byte sequence, bool to a boolean. Every one of the twelve tags is
  mapped, and the call returns for every sequence of (non-nil) columns.
\<close>

theorem MakeBuffer_supported_tag_kind:
  "(None \<notin> set cols \<longrightarrow> (\<exists>buf. MakeBuffer cols = Inr buf)) \<and>
   (\<forall>buf i c. MakeBuffer cols = Inr buf \<and> i < length cols \<and> cols ! i = Some c \<longrightarrow>
      (Type c = ''int16'' \<longrightarrow> buf ! i = New T_int16) \<and>
      (Type c = ''int32'' \<longrightarrow> buf ! i = New T_int32) \<and>
      (Type c = ''int64'' \<longrightarrow> buf ! i = New T_int64) \<and>
      (Type c = ''int8'' \<longrightarrow> buf ! i = New T_uint8) \<and>
      (Type c = ''float'' \<longrightarrow> buf ! i = New T_float32) \<and>
      (Type c = ''double'' \<longrightarrow> buf ! i = New T_float64) \<and>
      (Type c = ''datetime'' \<longrightarrow> buf ! i = New T_time_Time) \<and>
      (Type c = ''ipv4'' \<longrightarrow> buf ! i = New T_net_IP) \<and>
      (Type c = ''ipv6'' \<longrightarrow> buf ! i = New T_net_IP) \<and>
      (Type c = ''string'' \<longrightarrow> buf ! i = New T_string) \<and>
      (Type c = ''binary'' \<longrightarrow> buf ! i = New T_bytes) \<and>
      (Type c = ''bool'' \<longrightarrow> buf ! i = New T_bool) \<and>
      (Type c \<in> set supported_tags \<longrightarrow>
         (\<exists>k. spec_storage_kind (Type c) = Some k \<and> buf ! i = New k)))"
proof (intro conjI allI impI)
  assume "None \<notin> set cols"
  then show "\<exists>buf. MakeBuffer cols = Inr buf" by (simp add: MakeBuffer_eq)
next
  fix buf i c
  assume a: "MakeBuffer cols = Inr buf \<and> i < length cols \<and> cols ! i = Some c"
  then have nth: "buf ! i = slot_of_tag (Type c)" by (blast intro: MakeBuffer_nth)
  { assume "Type c = ''int16''" with nth show "buf ! i = New T_int16"
      by (simp add: slot_of_tag_def spec_storage_kind_def) }
  { assume "Type c = ''int32''" with nth show "buf ! i = New T_int32"
      by (simp add: slot_of_tag_def spec_storage_kind_def) }
  { assume "Type c = ''int64''" with nth show "buf ! i = New T_int64"
      by (simp add: slot_of_tag_def spec_storage_kind_def) }
  { assume "Type c = ''int8''" with nth show "buf ! i = New T_uint8"
      by (simp add: slot_of_tag_def spec_storage_kind_def) }
  { assume "Type c = ''float''" with nth show "buf ! i = New T_float32"
      by (simp add: slot_of_tag_def spec_storage_kind_def) }
  { assume "Type c = ''double''" with nth show "buf ! i = New T_float64"
      by (simp add: slot_of_tag_def spec_storage_kind_def) }
  { assume "Type c = ''datetime''" with nth show "buf ! i = New T_time_Time"
      by (simp add: slot_of_tag_def spec_storage_kind_def) }
  { assume "Type c = ''ipv4''" with nth show "buf ! i = New T_net_IP"
      by (simp add: slot_of_tag_def spec_storage_kind_def) }
  { assume "Type c = ''ipv6''" with nth show "buf ! i = New T_net_IP"
      by (simp add: slot_of_tag_def spec_storage_kind_def) }
  { assume "Type c = ''string''" with nth show "buf ! i = New T_string"
      by (simp add: slot_of_tag_def spec_storage_kind_def) }
  { assume "Type c = ''binary''" with nth show "buf ! i = New T_bytes"
      by (simp add: slot_of_tag_def spec_storage_kind_def) }
  { assume "Type c = ''bool''" with nth show "buf ! i = New T_bool"
      by (simp add: slot_of_tag_def spec_storage_kind_def) }
  { assume "Type c \<in> set supported_tags"
    then obtain k where "spec_storage_kind (Type c) = Some k"
      using spec_storage_kind_supported by auto
    with nth show "\<exists>k. spec_storage_kind (Type c) = Some k \<and> buf ! i = New k"
      by (simp add: slot_of_tag_def) }
qed

theorem MakeBuffer_supported_tag_kind_witness:
  "None \<notin> set example_columns \<and>
   MakeBuffer example_columns = Inr [New T_string, New T_int32, New T_time_Time, NilSlot] \<and>
   (1::nat) < length example_columns \<and>
   example_columns ! 1 = Some \<lparr>Name = ''age'', Type = ''int32'', Size = 4, Length = 0\<rparr> \<and>
   ''int32'' \<in> set supported_tags \<and>
   [New T_string, New T_int32, New T_time_Time, NilSlot] ! 1 = New T_int32 \<and>
   spec_storage_kind ''int32'' = Some T_int32"
  using MakeBuffer_supported_tag_kind [of example_columns] example_MakeBuffer
  by (simp add: example_columns_def supported_tags_def ColumnBufferType_defs
        spec_storage_kind_def)

subsection \<open>Lengths\<close>

lemma example_Names: "Names example_columns = Inr [''name'', ''age'', ''ts'', ''geo'']"
  by (simp add: Names_def example_columns_def Names_body_def upt_rec)

lemma example_Types:
  "Types example_columns = Inr [''string'', ''int32'', ''datetime'', ''point'']"
  by (simp add: Types_def example_columns_def Types_body_def upt_rec)

text \<open>
  C2. Whatever \<open>Names\<close>, \<open>Types\<close> and \<open>MakeBuffer\<close> return has exactly as many entries
  as the sequence has columns, and all three return for every sequence of (non-nil) columns.
\<close>

theorem Names_Types_MakeBuffer_length:
  "(\<forall>names. Names cols = Inr names \<longrightarrow> length names = length cols) \<and>
   (\<forall>types. Types cols = Inr types \<longrightarrow> length types = length cols) \<and>
   (\<forall>buf. MakeBuffer cols = Inr buf \<longrightarrow> length buf = length cols) \<and>
   (None \<notin> set cols \<longrightarrow>
      (\<exists>names types buf.
         Names cols = Inr names \<and> Types cols = Inr types \<and> MakeBuffer cols = Inr buf))"
  by (auto simp: Names_eq Types_eq MakeBuffer_eq split: if_splits)

theorem Names_Types_MakeBuffer_length_witness:
  "None \<notin> set example_columns \<and> length example_columns = 4 \<and>
   Names example_columns = Inr [''name'', ''age'', ''ts'', ''geo''] \<and>
   length [''name'', ''age'', ''ts'', ''geo''] = length example_columns \<and>
   Types example_columns = Inr [''string'', ''int32'', ''datetime'', ''point''] \<and>
   length [''string'', ''int32'', ''datetime'', ''point''] = length example_columns \<and>
   MakeBuffer example_columns = Inr [New T_string, New T_int32, New T_time_Time, NilSlot] \<and>
   length [New T_string, New T_int32, New T_time_Time, NilSlot] = length example_columns"
  using Names_Types_MakeBuffer_length [of example_columns]
    example_Names example_Types example_MakeBuffer
  by (simp add: example_columns_def)

subsection \<open>Display names\<close>

lemma example_NamesWithTimeLocation:
  "NamesWithTimeLocation example_columns example_zone =
     Inr [''name'', ''age'', ''ts(Asia/Seoul)'', ''geo'']"
  by (simp add: NamesWithTimeLocation_def example_columns_def example_zone_def
        NamesWithTimeLocation_body_def Sprintf_name_zone_def Location_String_def upt_rec)

text \<open>
  C3. For every sequence, every time zone and every index, \<open>NamesWithTimeLocation\<close>
  renders a column of type \<^verbatim>\<open>datetime\<close> as its name, an opening parenthesis, the label of the
  zone and a closing parenthesis; a column of any other type is rendered as its bare name,
  the entry \<open>Names\<close> has at the same index.
\<close>

theorem NamesWithTimeLocation_entries:
  "(None \<notin> set cols \<longrightarrow> (\<exists>names. NamesWithTimeLocation cols tz = Inr names)) \<and>
   (\<forall>names i c.
      NamesWithTimeLocation cols tz = Inr names \<and> i < length cols \<and> cols ! i = Some c \<longrightarrow>
        (Type c = ''datetime'' \<longrightarrow>
           names ! i = Name c @ ''('' @ Location_String tz @ '')'') \<and>
        (Type c \<noteq> ''datetime'' \<longrightarrow>
           names ! i = Name c \<and>
           (\<exists>bare. Names cols = Inr bare \<and> bare ! i = names ! i)))"
  by (auto simp: NamesWithTimeLocation_eq Names_eq split: if_splits)

theorem NamesWithTimeLocation_entries_witness:
  "None \<notin> set example_columns \<and>
   NamesWithTimeLocation example_columns example_zone =
     Inr [''name'', ''age'', ''ts(Asia/Seoul)'', ''geo''] \<and>
   (2::nat) < length example_columns \<and>
   example_columns ! 2 = Some \<lparr>Name = ''ts'', Type = ''datetime'', Size = 8, Length = 0\<rparr> \<and>
   [''name'', ''age'', ''ts(Asia/Seoul)'', ''geo''] ! 2
     = ''ts'' @ ''('' @ Location_String example_zone @ '')'' \<and>
   (1::nat) < length example_columns \<and>
   example_columns ! 1 = Some \<lparr>Name = ''age'', Type = ''int32'', Size = 4, Length = 0\<rparr> \<and>
   ''int32'' \<noteq> ''datetime'' \<and>
   [''name'', ''age'', ''ts(Asia/Seoul)'', ''geo''] ! 1 = ''age'' \<and>
   Names example_columns = Inr [''name'', ''age'', ''ts'', ''geo''] \<and>
   [''name'', ''age'', ''ts'', ''geo''] ! 1 = [''name'', ''age'', ''ts(Asia/Seoul)'', ''geo''] ! 1"
  using NamesWithTimeLocation_entries [of example_columns example_zone]
    example_NamesWithTimeLocation example_Names
  by (simp add: example_columns_def example_zone_def Location_String_def)

subsection \<open>Unknown tags\<close>

lemma slot_of_tag_unsupported: "t \<notin> set supported_tags \<Longrightarrow> slot_of_tag t = NilSlot"
  by (simp add: spec_storage_kind_supported slot_of_tag_def)

lemma slot_of_tag_supported:
  "t \<in> set supported_tags \<Longrightarrow> \<exists>k. spec_storage_kind t = Some k \<and> slot_of_tag t = New k"
  by (auto simp: spec_storage_kind_supported slot_of_tag_def)

text \<open>
  C4. A tag outside the twelve never makes \<open>MakeBuffer\<close> fail: the call returns exactly
  when no entry of the sequence is a nil pointer, whatever the tags are. The buffer it
  returns has full length, the slot of a column with an unknown tag is nil, and the slot of
  every column with a supported tag is allocated as the table says.
\<close>

theorem MakeBuffer_unknown_tag_nil:
  "((\<exists>buf. MakeBuffer cols = Inr buf) \<longleftrightarrow> None \<notin> set cols) \<and>
   (\<forall>buf. MakeBuffer cols = Inr buf \<longrightarrow>
      length buf = length cols \<and>
      (\<forall>i c. i < length cols \<and> cols ! i = Some c \<longrightarrow>
         (Type c \<notin> set supported_tags \<longrightarrow> buf ! i = NilSlot) \<and>
         (Type c \<in> set supported_tags \<longrightarrow>
            (\<exists>k. spec_storage_kind (Type c) = Some k \<and> buf ! i = New k))))"
proof (intro conjI allI impI)
  show "(\<exists>buf. MakeBuffer cols = Inr buf) \<longleftrightarrow> None \<notin> set cols"
    by (simp add: MakeBuffer_eq)
next
  fix buf assume "MakeBuffer cols = Inr buf"
  then show "length buf = length cols"
    by (auto simp: MakeBuffer_eq split: if_splits)
next
  fix buf i c
  assume run: "MakeBuffer cols = Inr buf" and ic: "i < length cols \<and> cols ! i = Some c"
  then have nth: "buf ! i = slot_of_tag (Type c)" by (blast intro: MakeBuffer_nth)
  { assume "Type c \<notin> set supported_tags"
    with nth show "buf ! i = NilSlot" by (simp add: slot_of_tag_unsupported) }
  { assume "Type c \<in> set supported_tags"
    with nth show "\<exists>k. spec_storage_kind (Type c) = Some k \<and> buf ! i = New k"
      using slot_of_tag_supported by simp }
qed

theorem MakeBuffer_unknown_tag_nil_witness:
  "None \<notin> set example_columns \<and>
   MakeBuffer example_columns = Inr [New T_string, New T_int32, New T_time_Time, NilSlot] \<and>
   length [New T_string, New T_int32, New T_time_Time, NilSlot] = length example_columns \<and>
   (3::nat) < length example_columns \<and>
   example_columns ! 3 = Some \<lparr>Name = ''geo'', Type = ''point'', Size = 16, Length = 0\<rparr> \<and>
   ''point'' \<notin> set supported_tags \<and>
   [New T_string, New T_int32, New T_time_Time, NilSlot] ! 3 = NilSlot \<and>
   (0::nat) < length example_columns \<and>
   example_columns ! 0 = Some \<lparr>Name = ''name'', Type = ''string'', Size = 0, Length = 0\<rparr> \<and>
   ''string'' \<in> set supported_tags \<and>
   spec_storage_kind ''string'' = Some T_string \<and>
   [New T_string, New T_int32, New T_time_Time, NilSlot] ! 0 = New T_string"
  using MakeBuffer_unknown_tag_nil [of example_columns] example_MakeBuffer
  by (simp add: example_columns_def supported_tags_def ColumnBufferType_defs
        spec_storage_kind_def)

subsection \<open>Exact matching of tags\<close>

lemma supported_tags_lower: "\<forall>t\<in>set supported_tags. map to_lower t = t"
  by code_simp

lemma supported_tags_no_sublist:
  "\<forall>a\<in>set supported_tags. \<forall>b\<in>set supported_tags. sublist a b \<longrightarrow> a = b"
  by code_simp

lemma tag_variant_unsupported:
  assumes "tag \<in> set supported_tags" "tag_variant t tag"
  shows "t \<notin> set supported_tags"
proof
  assume t: "t \<in> set supported_tags"
  with supported_tags_lower have "map to_lower t = t" by blast
  with assms(2) have "sublist tag t" "t \<noteq> tag" by (simp_all add: tag_variant_def)
  with supported_tags_no_sublist assms(1) t show False by blast
qed

lemma tag_variant_iff:
  "tag_variant t tag \<longleftrightarrow>
     t \<noteq> tag \<and> (\<exists>pre mid post. t = pre @ mid @ post \<and> map to_lower mid = tag)"
proof -
  have "sublist tag (map to_lower t) \<longleftrightarrow>
        (\<exists>pre mid post. t = pre @ mid @ post \<and> map to_lower mid = tag)"
  proof
    assume "sublist tag (map to_lower t)"
    then obtain ps ss where "map to_lower t = ps @ tag @ ss" by (auto simp: sublist_def)
    from this[unfolded map_eq_append_conv]
    obtain pre rest where t: "t = pre @ rest" and r: "tag @ ss = map to_lower rest"
      by blast
    from r[unfolded append_eq_map_conv]
    obtain mid post where "rest = mid @ post" "map to_lower mid = tag"
      by auto
    with t show "\<exists>pre mid post. t = pre @ mid @ post \<and> map to_lower mid = tag" by blast
  next
    assume "\<exists>pre mid post. t = pre @ mid @ post \<and> map to_lower mid = tag"
    then obtain pre mid post where "t = pre @ mid @ post" "map to_lower mid = tag" by blast
    then have "map to_lower t = map to_lower pre @ tag @ map to_lower post" by simp
    then show "sublist tag (map to_lower t)" unfolding sublist_def by blast
  qed
  then show ?thesis by (simp add: tag_variant_def)
qed

lemma slot_of_tag_nil_iff: "slot_of_tag t = NilSlot \<longleftrightarrow> t \<notin> set supported_tags"
  by (auto simp: spec_storage_kind_supported slot_of_tag_def split: option.splits)

lemma variant_MakeBuffer: "MakeBuffer variant_columns = Inr [NilSlot, NilSlot, NilSlot]"
  by (simp add: MakeBuffer_def variant_columns_def MakeBuffer_body_def upt_rec)

lemma variant_examples:
  "tag_variant ''INT32'' ''int32''" "tag_variant ''Datetime'' ''datetime''"
  "tag_variant ''int32 '' ''int32''"
  by code_simp+

text \<open>
  C9. Tags are matched by exact, case-sensitive string equality: the slot of a column is
  allocated exactly when its type is, character for character, one of the twelve tags. A
  type that is a near miss of a supported tag (other letter case, extra characters around
  it) is none of the twelve, and its slot is nil as for any unknown tag; the types
  \<^verbatim>\<open>INT32\<close>, \<^verbatim>\<open>Datetime\<close> and \<^verbatim>\<open>int32\<close> followed by a blank are instances.
\<close>

theorem MakeBuffer_tag_match_exact:
  "\<forall>buf i c.
     MakeBuffer cols = Inr buf \<and> i < length cols \<and> cols ! i = Some c \<longrightarrow>
       (buf ! i \<noteq> NilSlot \<longleftrightarrow> Type c \<in> set supported_tags) \<and>
       (\<forall>tag. tag \<in> set supported_tags \<and> tag_variant (Type c) tag \<longrightarrow>
          Type c \<notin> set supported_tags \<and> buf ! i = NilSlot)"
proof (intro allI impI)
  fix buf i c
  assume a: "MakeBuffer cols = Inr buf \<and> i < length cols \<and> cols ! i = Some c"
  then have nth: "buf ! i = slot_of_tag (Type c)" by (blast intro: MakeBuffer_nth)
  have exact: "buf ! i \<noteq> NilSlot \<longleftrightarrow> Type c \<in> set supported_tags"
    using nth by (simp add: slot_of_tag_nil_iff)
  have near: "Type c \<notin> set supported_tags \<and> buf ! i = NilSlot"
    if "tag \<in> set supported_tags \<and> tag_variant (Type c) tag" for tag
  proof -
    from that have "Type c \<notin> set supported_tags"
      using tag_variant_unsupported [of tag "Type c"] by simp
    with exact show ?thesis by simp
  qed
  from exact near
  show "(buf ! i \<noteq> NilSlot \<longleftrightarrow> Type c \<in> set supported_tags) \<and>
       (\<forall>tag. tag \<in> set supported_tags \<and> tag_variant (Type c) tag \<longrightarrow>
          Type c \<notin> set supported_tags \<and> buf ! i = NilSlot)" by blast
qed

theorem MakeBuffer_tag_match_exact_witness:
  "MakeBuffer variant_columns = Inr [NilSlot, NilSlot, NilSlot] \<and>
   ''int32'' \<in> set supported_tags \<and> ''datetime'' \<in> set supported_tags \<and>
   (0::nat) < length variant_columns \<and>
   variant_columns ! 0 = Some \<lparr>Name = ''a'', Type = ''INT32'', Size = 4, Length = 0\<rparr> \<and>
   tag_variant ''INT32'' ''int32'' \<and> [NilSlot, NilSlot, NilSlot] ! 0 = NilSlot \<and>
   (1::nat) < length variant_columns \<and>
   variant_columns ! 1 = Some \<lparr>Name = ''b'', Type = ''Datetime'', Size = 8, Length = 0\<rparr> \<and>
   tag_variant ''Datetime'' ''datetime'' \<and> [NilSlot, NilSlot, NilSlot] ! 1 = NilSlot \<and>
   (2::nat) < length variant_columns \<and>
   variant_columns ! 2 = Some \<lparr>Name = ''c'', Type = ''int32 '', Size = 4, Length = 0\<rparr> \<and>
   tag_variant ''int32 '' ''int32'' \<and> [NilSlot, NilSlot, NilSlot] ! 2 = NilSlot"
  using MakeBuffer_tag_match_exact [of variant_columns] variant_MakeBuffer variant_examples
  by (simp add: variant_columns_def supported_tags_def ColumnBufferType_defs)

subsection \<open>Dependence on the type field alone\<close>

lemma other_MakeBuffer: "MakeBuffer other_columns = Inr [New T_bool, NilSlot, New T_int32]"
  by (simp add: MakeBuffer_def other_columns_def MakeBuffer_body_def upt_rec)

text \<open>
  C10. The slot allocated at an index depends on the \<open>Type\<close> field of that column only: two
  columns with equal types, at any indices of any two sequences, with any names, sizes and
  lengths and any neighbours, get slots of the same kind.
\<close>

theorem MakeBuffer_kind_depends_on_Type_only:
  "\<forall>bc bd i j x y.
     MakeBuffer c = Inr bc \<and> MakeBuffer d = Inr bd \<and>
     i < length c \<and> j < length d \<and> c ! i = Some x \<and> d ! j = Some y \<and> Type x = Type y \<longrightarrow>
       bc ! i = bd ! j"
proof (intro allI impI)
  fix bc bd i j x y
  assume a: "MakeBuffer c = Inr bc \<and> MakeBuffer d = Inr bd \<and>
     i < length c \<and> j < length d \<and> c ! i = Some x \<and> d ! j = Some y \<and> Type x = Type y"
  then have "bc ! i = slot_of_tag (Type x)" by (blast intro: MakeBuffer_nth)
  moreover from a have "bd ! j = slot_of_tag (Type y)" by (blast intro: MakeBuffer_nth)
  ultimately show "bc ! i = bd ! j" using a by simp
qed

theorem MakeBuffer_kind_depends_on_Type_only_witness:
  "MakeBuffer example_columns = Inr [New T_string, New T_int32, New T_time_Time, NilSlot] \<and>
   MakeBuffer other_columns = Inr [New T_bool, NilSlot, New T_int32] \<and>
   (1::nat) < length example_columns \<and> (2::nat) < length other_columns \<and>
   example_columns ! 1 = Some \<lparr>Name = ''age'', Type = ''int32'', Size = 4, Length = 0\<rparr> \<and>
   other_columns ! 2 = Some \<lparr>Name = ''count'', Type = ''int32'', Size = 64, Length = 9\<rparr> \<and>
   [New T_string, New T_int32, New T_time_Time, NilSlot] ! 1 = [New T_bool, NilSlot, New T_int32] ! 2"
  using MakeBuffer_kind_depends_on_Type_only [of example_columns other_columns]
    example_MakeBuffer other_MakeBuffer
  by (simp add: example_columns_def other_columns_def)

section \<open>Properties of the error sentinels\<close>

lemma error_eq_iff: "error_eq a b \<longleftrightarrow> a = b"
  by (cases a; cases b) simp_all

lemma init_sentinels_eq:
  "init_sentinels st =
     (\<lparr>ErrUserCancel = errorString_at (length st),
       ErrNotImplemented = errorString_at (Suc (length st))\<rparr>,
      st @ [''user cancel'', ''not implemented''])"
  by (simp add: init_sentinels_def errors_New_def)

text \<open>
  C7. After package initialisation, from any store, the two sentinels are two distinct
  non-nil error values: each compares equal to itself, neither compares equal to the other,
  and the comparison is one of identity, which never reads the message: an error made
  later by \<^verbatim>\<open>errors.New\<close>, with the text of a sentinel or with any other, equals neither.
\<close>

theorem sentinels_identity_comparable:
  "(let (g, st') = init_sentinels st in
      error_eq (ErrUserCancel g) (ErrUserCancel g) \<and>
      error_eq (ErrNotImplemented g) (ErrNotImplemented g) \<and>
      \<not> error_eq (ErrUserCancel g) (ErrNotImplemented g) \<and>
      \<not> error_eq (ErrNotImplemented g) (ErrUserCancel g) \<and>
      \<not> error_eq (ErrUserCancel g) nil_error \<and>
      \<not> error_eq (ErrNotImplemented g) nil_error \<and>
      Error st' (ErrUserCancel g) = Inr ''user cancel'' \<and>
      Error st' (ErrNotImplemented g) = Inr ''not implemented'' \<and>
      (\<forall>later txt.
         \<not> error_eq (fst (errors_New txt (st' @ later))) (ErrUserCancel g) \<and>
         \<not> error_eq (fst (errors_New txt (st' @ later))) (ErrNotImplemented g)))"
  by (simp add: init_sentinels_eq errors_New_def nth_append)

theorem sentinels_identity_comparable_witness:
  "init_sentinels [] =
     (\<lparr>ErrUserCancel = errorString_at 0, ErrNotImplemented = errorString_at 1\<rparr>,
      [''user cancel'', ''not implemented'']) \<and>
   error_eq (errorString_at 0) (errorString_at 0) \<and>
   \<not> error_eq (errorString_at 0) (errorString_at 1) \<and>
   Error [''user cancel'', ''not implemented''] (errorString_at 0) = Inr ''user cancel'' \<and>
   errors_New ''user cancel'' [''user cancel'', ''not implemented'']
     = (errorString_at 2, [''user cancel'', ''not implemented'', ''user cancel'']) \<and>
   \<not> error_eq (fst (errors_New ''user cancel'' ([''user cancel'', ''not implemented''] @ [])))
         (errorString_at 0)"
  using sentinels_identity_comparable [of "[]"]
  by (simp add: init_sentinels_eq errors_New_def)

section \<open>Properties of the row cursor\<close>

lemma Rows_Scan_iff: "Rows_Scan r = Inr row \<longleftrightarrow> state r = Positioned row"
  by (simp add: Rows_Scan_def split: cursor_state.splits)

lemma Rows_Scan_fails: "Rows_Scan r = Inl ScanWithoutRow \<longleftrightarrow> (\<forall>row. state r \<noteq> Positioned row)"
  by (simp add: Rows_Scan_def split: cursor_state.splits)

lemma Rows_Next_false: "\<not> fst (Rows_Next r) \<longleftrightarrow> state (snd (Rows_Next r)) = Exhausted"
  by (simp add: Rows_Next_def split: cursor_state.splits list.splits)

lemma Rows_Next_true:
  "fst (Rows_Next r) \<longleftrightarrow> (\<exists>row. state (snd (Rows_Next r)) = Positioned row)"
  by (simp add: Rows_Next_def split: cursor_state.splits list.splits)

lemma Rows_after_Exhausted: "state r = Exhausted \<Longrightarrow> state (Rows_after c r) = Exhausted"
  by (cases c) (simp_all add: Rows_Next_def Rows_Close_def)

lemma Rows_run_Exhausted: "state r = Exhausted \<Longrightarrow> state (Rows_run cs r) = Exhausted"
  by (induction cs arbitrary: r) (simp_all add: Rows_after_Exhausted)

lemma Rows_run_no_Next: "Call_Next \<notin> set cs \<Longrightarrow> state (Rows_run cs r) = state r"
proof (induction cs arbitrary: r)
  case Nil
  then show ?case by simp
next
  case (Cons c cs)
  then have "state (Rows_after c r) = state r"
    by (cases c) (simp_all add: Rows_Close_def)
  with Cons show ?case by simp
qed

lemma Rows_run_append: "Rows_run (cs @ ds) r = Rows_run ds (Rows_run cs r)"
  by (induction cs arbitrary: r) simp_all

lemma Rows_run_Positioned:
  "state (Rows_run cs r) = Positioned row \<Longrightarrow> state r \<noteq> Positioned row \<Longrightarrow>
   \<exists>pre post. cs = pre @ Call_Next # post \<and> Call_Next \<notin> set post \<and>
     fst (Rows_Next (Rows_run pre r)) \<and>
     state (snd (Rows_Next (Rows_run pre r))) = Positioned row"
proof (induction cs rule: rev_induct)
  case Nil
  then show ?case by simp
next
  case (snoc c cs)
  show ?case
  proof (cases c)
    case Call_Next
    with snoc.prems(1) have pos: "state (snd (Rows_Next (Rows_run cs r))) = Positioned row"
      by (simp add: Rows_run_append)
    then have "fst (Rows_Next (Rows_run cs r))"
      using Rows_Next_true by blast
    with pos Call_Next show ?thesis by (intro exI[of _ cs] exI[of _ "[]"]) simp
  next
    case Call_Scan
    with snoc.prems(1) have "state (Rows_run cs r) = Positioned row"
      by (simp add: Rows_run_append)
    from snoc.IH[OF this snoc.prems(2)] obtain pre post where
      "cs = pre @ Call_Next # post" "Call_Next \<notin> set post"
      "fst (Rows_Next (Rows_run pre r))"
      "state (snd (Rows_Next (Rows_run pre r))) = Positioned row" by blast
    with Call_Scan show ?thesis
      by (intro exI[of _ pre] exI[of _ "post @ [c]"]) simp
  next
    case Call_Close
    with snoc.prems(1) have "state (Rows_run cs r) = Positioned row"
      by (simp add: Rows_run_append Rows_Close_def)
    from snoc.IH[OF this snoc.prems(2)] obtain pre post where
      "cs = pre @ Call_Next # post" "Call_Next \<notin> set post"
      "fst (Rows_Next (Rows_run pre r))"
      "state (snd (Rows_Next (Rows_run pre r))) = Positioned row" by blast
    with Call_Close show ?thesis
      by (intro exI[of _ pre] exI[of _ "post @ [c]"]) simp
  qed
qed

text \<open>
  C5. On a fresh cursor, a \<open>Scan\<close> made before any \<open>Next\<close> fails with the usage error;
  once a \<open>Next\<close> has returned false, \<open>Scan\<close> fails after any further calls; a \<open>Scan\<close> that
  succeeds finds the cursor \<open>Positioned\<close>, and the last \<open>Next\<close> before it returned true;
  \<open>Close\<close> returns a nil error from every state, also when repeated, and a second \<open>Close\<close>
  changes nothing.
\<close>

theorem Rows_Scan_only_when_Positioned:
  "(\<forall>cs. Call_Next \<notin> set cs \<longrightarrow>
      Rows_Scan (Rows_run cs (Rows_Open rs)) = Inl ScanWithoutRow) \<and>
   (\<forall>r cs. \<not> fst (Rows_Next r) \<longrightarrow>
      Rows_Scan (Rows_run cs (snd (Rows_Next r))) = Inl ScanWithoutRow) \<and>
   (\<forall>cs row. Rows_Scan (Rows_run cs (Rows_Open rs)) = Inr row \<longrightarrow>
      (\<exists>pre post. cs = pre @ Call_Next # post \<and> Call_Next \<notin> set post \<and>
         fst (Rows_Next (Rows_run pre (Rows_Open rs))) \<and>
         state (Rows_run cs (Rows_Open rs)) = Positioned row)) \<and>
   (\<forall>r. (\<exists>row. Rows_Scan r = Inr row) \<longleftrightarrow> (\<exists>row. state r = Positioned row)) \<and>
   (\<forall>r. fst (Rows_Close r) = None \<and>
        fst (Rows_Close (snd (Rows_Close r))) = None \<and>
        snd (Rows_Close (snd (Rows_Close r))) = snd (Rows_Close r) \<and>
        state (snd (Rows_Close r)) = state r)"
proof (intro conjI allI impI)
  fix cs assume "Call_Next \<notin> set cs"
  then have "state (Rows_run cs (Rows_Open rs)) = Unstarted"
    by (simp add: Rows_run_no_Next Rows_Open_def)
  then show "Rows_Scan (Rows_run cs (Rows_Open rs)) = Inl ScanWithoutRow"
    by (simp add: Rows_Scan_def)
next
  fix r cs assume "\<not> fst (Rows_Next r)"
  then have "state (snd (Rows_Next r)) = Exhausted" by (simp add: Rows_Next_false)
  then have "state (Rows_run cs (snd (Rows_Next r))) = Exhausted" by (rule Rows_run_Exhausted)
  then show "Rows_Scan (Rows_run cs (snd (Rows_Next r))) = Inl ScanWithoutRow"
    by (simp add: Rows_Scan_def)
next
  fix cs row assume "Rows_Scan (Rows_run cs (Rows_Open rs)) = Inr row"
  then have pos: "state (Rows_run cs (Rows_Open rs)) = Positioned row"
    by (simp add: Rows_Scan_iff)
  have "state (Rows_Open rs) \<noteq> Positioned row" by (simp add: Rows_Open_def)
  from Rows_run_Positioned[OF pos this] pos
  show "\<exists>pre post. cs = pre @ Call_Next # post \<and> Call_Next \<notin> set post \<and>
         fst (Rows_Next (Rows_run pre (Rows_Open rs))) \<and>
         state (Rows_run cs (Rows_Open rs)) = Positioned row" by blast
next
  fix r show "(\<exists>row. Rows_Scan r = Inr row) \<longleftrightarrow> (\<exists>row. state r = Positioned row)"
    by (simp add: Rows_Scan_iff)
qed (simp_all add: Rows_Close_def)

theorem Rows_Scan_only_when_Positioned_witness:
  "Call_Next \<notin> set [Call_Scan, Call_Close] \<and>
   Rows_Scan (Rows_run [Call_Scan, Call_Close] (Rows_Open example_rows)) = Inl ScanWithoutRow \<and>
   Rows_Scan (Rows_run [Call_Next, Call_Scan] (Rows_Open example_rows))
     = Inr [StrVal ''alice'', IntVal 30] \<and>
   [Call_Next, Call_Scan] = [] @ Call_Next # [Call_Scan] \<and>
   fst (Rows_Next (Rows_run [] (Rows_Open example_rows))) \<and>
   \<not> fst (Rows_Next (Rows_run [Call_Next, Call_Scan] (Rows_Open example_rows))) \<and>
   Rows_Scan (Rows_run [Call_Scan, Call_Next, Call_Close, Call_Scan]
     (snd (Rows_Next (Rows_run [Call_Next, Call_Scan] (Rows_Open example_rows)))))
     = Inl ScanWithoutRow \<and>
   fst (Rows_Close (Rows_run [Call_Next, Call_Scan, Call_Next] (Rows_Open example_rows))) = None \<and>
   fst (Rows_Close (snd (Rows_Close
     (Rows_run [Call_Next, Call_Scan, Call_Next] (Rows_Open example_rows))))) = None"
  using Rows_Scan_only_when_Positioned [of example_rows]
  by (simp add: example_rows_def Rows_Open_def Rows_Next_def Rows_Scan_def Rows_Close_def)

section \<open>Properties of the appender\<close>

lemma Appender_after_column_count: "column_count (Appender_after c a) = column_count a"
  by (cases c) (simp_all add: Appender_Append_def Appender_AppendWithTimestamp_def)

lemma Appender_run_column_count: "column_count (Appender_run cs a) = column_count a"
  by (induction cs arbitrary: a) (simp_all add: Appender_after_column_count)

lemma Appender_after_rejected:
  "\<not> arity_ok (column_count a) c \<Longrightarrow> Appender_after c a = a"
  by (cases c) (auto simp: arity_ok_def Appender_Append_def Appender_AppendWithTimestamp_def)

lemma Appender_after_accepted:
  "arity_ok (column_count a) c \<Longrightarrow> length (buffered (Appender_after c a)) = Suc (length (buffered a))"
  by (cases c) (auto simp: arity_ok_def Appender_Append_def Appender_AppendWithTimestamp_def)

lemma Appender_run_filter:
  "Appender_run (filter (arity_ok (column_count a)) cs) a = Appender_run cs a"
proof (induction cs arbitrary: a)
  case Nil
  then show ?case by simp
next
  case (Cons c cs)
  show ?case
  proof (cases "arity_ok (column_count a) c")
    case True
    from Cons[of "Appender_after c a"] True show ?thesis
      by (simp add: Appender_after_column_count)
  next
    case False
    with Cons[of a] show ?thesis by (simp add: Appender_after_rejected)
  qed
qed

lemma Appender_run_length:
  "length (buffered (Appender_run cs a)) =
     length (buffered a) + length (filter (arity_ok (column_count a)) cs)"
proof (induction cs arbitrary: a)
  case Nil
  then show ?case by simp
next
  case (Cons c cs)
  show ?case
  proof (cases "arity_ok (column_count a) c")
    case True
    with Cons[of "Appender_after c a"] show ?thesis
      by (simp add: Appender_after_column_count Appender_after_accepted)
  next
    case False
    with Cons[of a] show ?thesis by (simp add: Appender_after_rejected)
  qed
qed

lemma Appender_Close_counts:
  "Appender_Close stores a = (s, f, e) \<Longrightarrow> s + f = int (length (buffered a))"
proof -
  assume "Appender_Close stores a = (s, f, e)"
  then have "s = int (length (filter stores (buffered a)))"
    "f = int (length (filter (\<lambda>row. \<not> stores row) (buffered a)))"
    by (simp_all add: Appender_Close_def Let_def)
  then have "s + f = int (length (filter stores (buffered a))
                        + length (filter (\<lambda>row. \<not> stores row) (buffered a)))"
    by simp
  then show ?thesis by (simp only: sum_length_filter_compl)
qed

lemma Appender_Close_all_stored:
  assumes "\<forall>row \<in> set (buffered a). stores row"
  shows "Appender_Close stores a = (int (length (buffered a)), 0, None)"
proof -
  from assms have "filter (\<lambda>row. \<not> stores row) (buffered a) = []"
    by (simp add: filter_empty_conv)
  moreover from assms have "filter stores (buffered a) = buffered a"
    by (simp add: filter_id_conv)
  ultimately show ?thesis by (simp add: Appender_Close_def)
qed

lemma Appender_run_Open_length:
  "length (buffered (Appender_run cs (Appender_Open k))) = length (filter (arity_ok k) cs)"
  using Appender_run_length[of cs "Appender_Open k"] by (simp add: Appender_Open_def)

text \<open>
  C6. On an appender bound to a table of \<open>k\<close> columns, an \<open>Append\<close> or
  \<open>AppendWithTimestamp\<close> whose number of values is not \<open>k\<close> fails and leaves the appender as
  it was. What \<open>Close\<close> returns after any sequence of calls is what it returns after the
  calls of the right arity alone: the two counts add up to the number of those calls, and
  when the engine stores every accepted row the result is that number, zero and a nil
  error (one valid and one mismatched call on two columns: 1, 0, nil).
\<close>

theorem Appender_arity_mismatch_local:
  "(\<forall>a values ts. length values \<noteq> column_count a \<longrightarrow>
      Appender_Append values a = (Some ArityMismatch, a) \<and>
      Appender_AppendWithTimestamp ts values a = (Some ArityMismatch, a)) \<and>
   (\<forall>stores cs.
      Appender_Close stores (Appender_run cs (Appender_Open k))
        = Appender_Close stores (Appender_run (filter (arity_ok k) cs) (Appender_Open k))) \<and>
   (\<forall>stores cs s f e.
      Appender_Close stores (Appender_run cs (Appender_Open k)) = (s, f, e) \<longrightarrow>
        s + f = int (length (filter (arity_ok k) cs)) \<and>
        ((\<forall>row \<in> set (buffered (Appender_run cs (Appender_Open k))). stores row) \<longrightarrow>
           s = int (length (filter (arity_ok k) cs)) \<and> f = 0 \<and> e = None))"
proof -
  have mismatch: "\<forall>a values ts. length values \<noteq> column_count a \<longrightarrow>
      Appender_Append values a = (Some ArityMismatch, a) \<and>
      Appender_AppendWithTimestamp ts values a = (Some ArityMismatch, a)"
    by (simp add: Appender_Append_def Appender_AppendWithTimestamp_def)
  have skip: "\<forall>stores cs.
      Appender_Close stores (Appender_run cs (Appender_Open k))
        = Appender_Close stores (Appender_run (filter (arity_ok k) cs) (Appender_Open k))"
    using Appender_run_filter[of "Appender_Open k"] by (simp add: Appender_Open_def)
  have counts: "s + f = int (length (filter (arity_ok k) cs)) \<and>
        ((\<forall>row \<in> set (buffered (Appender_run cs (Appender_Open k))). stores row) \<longrightarrow>
           s = int (length (filter (arity_ok k) cs)) \<and> f = 0 \<and> e = None)"
    if c: "Appender_Close stores (Appender_run cs (Appender_Open k)) = (s, f, e)"
    for stores cs s f e
  proof
    from Appender_Close_counts[OF c] show "s + f = int (length (filter (arity_ok k) cs))"
      by (simp add: Appender_run_Open_length)
    show "(\<forall>row \<in> set (buffered (Appender_run cs (Appender_Open k))). stores row) \<longrightarrow>
           s = int (length (filter (arity_ok k) cs)) \<and> f = 0 \<and> e = None"
    proof
      assume "\<forall>row \<in> set (buffered (Appender_run cs (Appender_Open k))). stores row"
      from Appender_Close_all_stored[OF this] c
      show "s = int (length (filter (arity_ok k) cs)) \<and> f = 0 \<and> e = None"
        by (simp add: Appender_run_Open_length)
    qed
  qed
  from mismatch skip counts show ?thesis by blast
qed

theorem Appender_arity_mismatch_local_witness:
  "length [IntVal 2] \<noteq> column_count (Appender_run [Call_Append [IntVal 1, StrVal ''a'']] (Appender_Open 2)) \<and>
   Appender_Append [IntVal 2] (Appender_run [Call_Append [IntVal 1, StrVal ''a'']] (Appender_Open 2))
     = (Some ArityMismatch, \<lparr>column_count = 2, buffered = [(None, [IntVal 1, StrVal ''a''])]\<rparr>) \<and>
   Appender_run [Call_Append [IntVal 1, StrVal ''a'']] (Appender_Open 2)
     = \<lparr>column_count = 2, buffered = [(None, [IntVal 1, StrVal ''a''])]\<rparr> \<and>
   filter (arity_ok 2) example_calls = [Call_Append [IntVal 1, StrVal ''a'']] \<and>
   buffered (Appender_run example_calls (Appender_Open 2)) = [(None, [IntVal 1, StrVal ''a''])] \<and>
   Appender_Close (\<lambda>row. True) (Appender_run example_calls (Appender_Open 2)) = (1, 0, None)"
  using Appender_arity_mismatch_local [of 2]
  by (simp add: example_calls_def Appender_Open_def Appender_Append_def Appender_Close_def
        arity_ok_def)

end
